theory Spec2Isabelle
  imports Main
begin

section \<open>Python values\<close>

text \<open>
  The notebook \<^verbatim>\<open>research/trails.ipynb\<close> passes around what \<^verbatim>\<open>json.loads\<close> returns
  and what the callers build by hand: \<^verbatim>\<open>None\<close>, booleans, integers, strings, lists and
  dictionaries with string keys. A dictionary is kept as the list of its items in
  insertion order; a key is looked up with \<open>map_of\<close>. Numbers with a fraction are left
  out of the model. Text is a \<open>string\<close> whose characters are read as the code points
  0..255.
\<close>

datatype json =
    JNull
  | JBool bool
  | JInt int
  | JStr string
  | JArr "json list"
  | JObj "(string \<times> json) list"

text \<open>The exceptions the modelled code can meet, as values.\<close>

datatype error =
    OpenAIError string
  | IndexError
  | KeyError string
  | AttributeError
  | TypeError
  | ValueError
  | JSONDecodeError
  | RecursionError
  | OverflowError
  | IntegrityError string
  | InterfaceError string

text \<open>Truth value testing (\<^verbatim>\<open>if x:\<close>, \<^verbatim>\<open>if not x:\<close>).\<close>

fun py_truthy :: "json \<Rightarrow> bool" where
  "py_truthy JNull = False"
| "py_truthy (JBool b) = b"
| "py_truthy (JInt n) = (n \<noteq> 0)"
| "py_truthy (JStr s) = (s \<noteq> [])"
| "py_truthy (JArr xs) = (xs \<noteq> [])"
| "py_truthy (JObj kvs) = (kvs \<noteq> [])"

text \<open>\<^verbatim>\<open>d.get(key, default)\<close> on a dictionary.\<close>

definition dict_get :: "(string \<times> json) list \<Rightarrow> string \<Rightarrow> json \<Rightarrow> json" where
  "dict_get d k dflt = (case map_of d k of Some v \<Rightarrow> v | None \<Rightarrow> dflt)"

subsection \<open>str.lower and str.strip\<close>

text \<open>
  \<^verbatim>\<open>str.lower\<close> on the code points 0..255: the letters A..Z and the capital letters
  of the upper half (0xC0..0xDE without the multiplication sign 0xD7) move up by 32.
\<close>

definition lower_char :: "char \<Rightarrow> char" where
  "lower_char c =
     (let n = (of_char c :: nat)
      in if (65 \<le> n \<and> n \<le> 90) \<or> (192 \<le> n \<and> n \<le> 222 \<and> n \<noteq> 215)
         then char_of (n + 32) else c)"

definition py_lower :: "string \<Rightarrow> string" where
  "py_lower s = map lower_char s"

text \<open>
  \<^verbatim>\<open>str.strip()\<close> removes leading and trailing whitespace, the characters for which
  \<^verbatim>\<open>str.isspace\<close> holds: 0x09..0x0D, 0x1C..0x20, 0x85 and 0xA0.
\<close>

definition is_space :: "char \<Rightarrow> bool" where
  "is_space c =
     (let n = (of_char c :: nat)
      in (9 \<le> n \<and> n \<le> 13) \<or> (28 \<le> n \<and> n \<le> 32) \<or> n = 133 \<or> n = 160)"

definition py_strip :: "string \<Rightarrow> string" where
  "py_strip s = rev (dropWhile is_space (rev (dropWhile is_space s)))"

section \<open>The language-model collaborator\<close>

text \<open>
  \<^verbatim>\<open>openai.chat.completions.create(model=..., messages=..., max_tokens=...,
  temperature=..., response_format=...)\<close> either raises or returns a response with a list
  of choices; the code reads \<^verbatim>\<open>response.choices[0].message.content\<close>, which is a
  string or \<^verbatim>\<open>None\<close>. The service is a parameter of every function that calls it.
  The temperature is kept as the decimal literal of the source.
\<close>

record message =
  role :: string
  content :: string

record chat_request =
  model :: string
  messages :: "message list"
  response_format :: "string option"
  max_tokens :: nat
  temperature :: string

type_synonym completion = "string option list"

type_synonym chat_service = "chat_request \<Rightarrow> error + completion"

text \<open>\<^verbatim>\<open>response.choices[0].message.content\<close>\<close>

definition first_content :: "completion \<Rightarrow> error + string option" where
  "first_content choices = (case choices of [] \<Rightarrow> Inl IndexError | c # _ \<Rightarrow> Inr c)"

text \<open>Two services for concrete runs: one that always answers, one that always raises.\<close>

definition answering :: "string \<Rightarrow> chat_service" where
  "answering text = (\<lambda>request. Inr [Some text])"

definition failing :: "error \<Rightarrow> chat_service" where
  "failing e = (\<lambda>request. Inl e)"

section \<open>classify_intent\<close>

definition classify_system_prompt :: string where
  "classify_system_prompt =
     ''\<newline>    You are an AI assistant for a restaurant. Classify the customer's intent into one of the following categories:\<newline>'' @
     ''    - new_order: Customer wants to place a new order\<newline>'' @
     ''    - modify_order: Customer wants to modify an existing order\<newline>'' @
     ''    - cancel_order: Customer wants to cancel an order\<newline>'' @
     ''    - check_status: Customer wants to check order status\<newline>'' @
     ''    - general_inquiry: Customer has a general question\<newline>'' @
     ''    - end_call: Customer wants to end the call\<newline>'' @
     ''    - unclear: Intent is not clear\<newline>'' @
     ''    \<newline>'' @
     ''    Return only the category as a single word.\<newline>'' @
     ''    ''"

definition classify_request :: "string \<Rightarrow> chat_request" where
  "classify_request transcript =
     \<lparr>model = ''gpt-3.5-turbo-0125'',
      messages = [\<lparr>role = ''system'', content = classify_system_prompt\<rparr>,
                  \<lparr>role = ''user'', content = transcript\<rparr>],
      response_format = None,
      max_tokens = 10,
      temperature = ''0.3''\<rparr>"

definition classify_intent :: "chat_service \<Rightarrow> string \<Rightarrow> error + string" where
  "classify_intent create transcript =
     (case create (classify_request transcript) of
        Inl e \<Rightarrow> Inl e
      | Inr response \<Rightarrow>
          (case first_content response of
             Inl e \<Rightarrow> Inl e
           | Inr None \<Rightarrow> Inl AttributeError
           | Inr (Some text) \<Rightarrow> Inr (py_lower (py_strip text))))"

text \<open>The closed set of intent labels of the specification.\<close>

definition intents :: "string list" where
  "intents = [''new_order'', ''modify_order'', ''cancel_order'', ''check_status'',
              ''general_inquiry'', ''end_call'', ''unclear'']"

section \<open>json.dumps\<close>

text \<open>
  \<^verbatim>\<open>json.dumps\<close> with its default settings: items separated by a comma and a space,
  a key and its value by a colon and a space, and every character outside the printable
  ASCII range escaped.
\<close>

fun nat_digits :: "nat \<Rightarrow> string" where
  "nat_digits n =
     (if n < 10 then [char_of (48 + n)]
      else nat_digits (n div 10) @ [char_of (48 + n mod 10)])"

definition int_repr :: "int \<Rightarrow> string" where
  "int_repr i = (if i < 0 then CHR ''-'' # nat_digits (nat (- i)) else nat_digits (nat i))"

definition hex_digit :: "nat \<Rightarrow> char" where
  "hex_digit d = (if d < 10 then char_of (48 + d) else char_of (87 + d))"

definition escape_char :: "char \<Rightarrow> string" where
  "escape_char c =
     (let n = (of_char c :: nat)
      in if n = 34 then [CHR 0x5C, CHR 0x22]
         else if n = 92 then [CHR 0x5C, CHR 0x5C]
         else if n = 10 then [CHR 0x5C, CHR ''n'']
         else if n = 13 then [CHR 0x5C, CHR ''r'']
         else if n = 9 then [CHR 0x5C, CHR ''t'']
         else if n = 8 then [CHR 0x5C, CHR ''b'']
         else if n = 12 then [CHR 0x5C, CHR ''f'']
         else if 32 \<le> n \<and> n \<le> 126 then [c]
         else CHR 0x5C # ''u00'' @ [hex_digit (n div 16), hex_digit (n mod 16)])"

definition quote :: "string \<Rightarrow> string" where
  "quote s = CHR 0x22 # concat (map escape_char s) @ [CHR 0x22]"

fun join :: "string \<Rightarrow> string list \<Rightarrow> string" where
  "join sep [] = []"
| "join sep [x] = x"
| "join sep (x # y # ys) = x @ sep @ join sep (y # ys)"

fun json_dumps :: "json \<Rightarrow> string"
  and dumps_elements :: "json list \<Rightarrow> string list"
  and dumps_items :: "(string \<times> json) list \<Rightarrow> string list"
  and dumps_item :: "string \<times> json \<Rightarrow> string" where
  "json_dumps JNull = ''null''"
| "json_dumps (JBool b) = (if b then ''true'' else ''false'')"
| "json_dumps (JInt i) = int_repr i"
| "json_dumps (JStr s) = quote s"
| "json_dumps (JArr xs) = ''['' @ join '', '' (dumps_elements xs) @ '']''"
| "json_dumps (JObj kvs) = ''{'' @ join '', '' (dumps_items kvs) @ ''}''"
| "dumps_elements [] = []"
| "dumps_elements (x # xs) = json_dumps x # dumps_elements xs"
| "dumps_items [] = []"
| "dumps_items (kv # kvs) = dumps_item kv # dumps_items kvs"
| "dumps_item (k, v) = quote k @ '': '' @ json_dumps v"

section \<open>generate_response\<close>

text \<open>
  An exchange of the conversation history is a dictionary with the keys
  \<^verbatim>\<open>"customer"\<close> and \<^verbatim>\<open>"assistant"\<close>, either of which can be absent.
\<close>

record exchange =
  customer :: "string option"
  assistant :: "string option"

definition response_system_prompt :: string where
  "response_system_prompt =
     ''\<newline>'' @
     ''    You are an AI assistant for Mario's Italian Restaurant. Your name is Mario's Virtual Assistant.\<newline>'' @
     ''    You handle phone orders and reservations politely and efficiently.\<newline>'' @
     ''    \<newline>'' @
     ''    Restaurant details:\<newline>'' @
     ''    - Hours: Tuesday-Sunday, 11am-10pm (closed Mondays)\<newline>'' @
     ''    - Specials: Margherita Pizza ($16), Seafood Linguine ($22), Tiramisu ($8)\<newline>'' @
     ''    - Delivery available within 5 miles, $3 delivery fee\<newline>'' @
     ''    - Reservations needed for parties of 5 or more\<newline>'' @
     ''    \<newline>'' @
     ''    When taking orders or making reservations:\<newline>'' @
     ''    1. Get customer name\<newline>'' @
     ''    2. Get order details or reservation time/party size\<newline>'' @
     ''    3. Confirm details before finalizing\<newline>'' @
     ''    4. End with a polite message\<newline>'' @
     ''    \<newline>'' @
     ''    Keep responses conversational but concise (max 3 sentences).\<newline>'' @
     ''    If you can't help or understand, politely offer to transfer to a human.\<newline>'' @
     ''    ''"

text \<open>
  The loop over the history: \<^verbatim>\<open>exchange["customer"]\<close> raises \<^verbatim>\<open>KeyError\<close> when the
  key is absent; the assistant's turn is added only when present.
\<close>

fun history_messages :: "message list \<Rightarrow> exchange list \<Rightarrow> error + message list" where
  "history_messages ms [] = Inr ms"
| "history_messages ms (e # es) =
     (case customer e of
        None \<Rightarrow> Inl (KeyError ''customer'')
      | Some c \<Rightarrow>
          history_messages
            (ms @ [\<lparr>role = ''user'', content = c\<rparr>] @
               (case assistant e of
                  Some a \<Rightarrow> [\<lparr>role = ''assistant'', content = a\<rparr>]
                | None \<Rightarrow> []))
            es)"

definition response_messages ::
  "string \<Rightarrow> exchange list \<Rightarrow> json option \<Rightarrow> error + message list" where
  "response_messages transcript conversation_history order_data =
     (case history_messages [\<lparr>role = ''system'', content = response_system_prompt\<rparr>]
             conversation_history of
        Inl e \<Rightarrow> Inl e
      | Inr ms \<Rightarrow>
          Inr (ms @ [\<lparr>role = ''user'', content = transcript\<rparr>] @
               (case order_data of
                  None \<Rightarrow> []
                | Some d \<Rightarrow>
                    if py_truthy d
                    then [\<lparr>role = ''system'',
                           content = ''Customer has an existing order: '' @ json_dumps d\<rparr>]
                    else [])))"

definition response_request :: "message list \<Rightarrow> chat_request" where
  "response_request ms =
     \<lparr>model = ''gpt-4o'',
      messages = ms,
      response_format = None,
      max_tokens = 150,
      temperature = ''0.7''\<rparr>"

definition generate_response ::
  "chat_service \<Rightarrow> string \<Rightarrow> exchange list \<Rightarrow> json option \<Rightarrow> error + string option" where
  "generate_response create transcript conversation_history order_data =
     (case response_messages transcript conversation_history order_data of
        Inl e \<Rightarrow> Inl e
      | Inr ms \<Rightarrow>
          (case create (response_request ms) of
             Inl e \<Rightarrow> Inl e
           | Inr response \<Rightarrow> first_content response))"

section \<open>generate_twiml_response\<close>

text \<open>
  A \<^verbatim>\<open>VoiceResponse\<close> is the sequence of its verbs. \<^verbatim>\<open>say\<close>, \<^verbatim>\<open>append\<close> and
  \<^verbatim>\<open>redirect\<close> each add one verb at the end.
\<close>

record gather =
  input :: string
  action :: string
  timeout :: nat
  speech_timeout :: string
  language :: string

datatype verb =
    Say string string
  | Gather gather
  | Redirect string

type_synonym VoiceResponse = "verb list"

definition say :: "string \<Rightarrow> string \<Rightarrow> VoiceResponse \<Rightarrow> VoiceResponse" where
  "say text voice response = response @ [Say text voice]"

definition append_verb :: "verb \<Rightarrow> VoiceResponse \<Rightarrow> VoiceResponse" where
  "append_verb v response = response @ [v]"

definition redirect :: "string \<Rightarrow> VoiceResponse \<Rightarrow> VoiceResponse" where
  "redirect url response = response @ [Redirect url]"

definition generate_twiml_response :: "string \<Rightarrow> bool \<Rightarrow> VoiceResponse" where
  "generate_twiml_response ai_message gather_speech =
     (let response = say ai_message ''Polly.Joanna'' []
      in if gather_speech
         then redirect ''/voice/handle-no-input''
                (append_verb
                   (Gather \<lparr>input = ''speech'', action = ''/voice/process-speech'',
                            timeout = 3, speech_timeout = ''auto'', language = ''en-US''\<rparr>)
                   response)
         else response)"

text \<open>The steps of a document, as the specification counts them.\<close>

fun is_speak :: "verb \<Rightarrow> bool" where
  "is_speak (Say text voice) = True"
| "is_speak v = False"

fun is_listen :: "verb \<Rightarrow> bool" where
  "is_listen (Gather g) = True"
| "is_listen v = False"

section \<open>parse_order_details\<close>




text \<open>The dictionary returned when \<^verbatim>\<open>json.loads\<close> raises \<^verbatim>\<open>JSONDecodeError\<close>.\<close>

definition fallback_details :: "(string \<times> json) list" where
  "fallback_details =
     [(''customer_name'', JNull),
      (''order_items'', JArr []),
      (''is_delivery'', JBool False),
      (''address'', JNull),
      (''reservation_time'', JNull),
      (''party_size'', JNull),
      (''parsing_error'', JBool True)]"


section \<open>calculate_order_total\<close>

definition menu_prices :: "(string \<times> int) list" where
  "menu_prices =
     [(''margherita pizza'', 1600),
      (''seafood linguine'', 2200),
      (''tiramisu'', 800)]"

text \<open>\<^verbatim>\<open>menu_prices.get(item_name, 1000)\<close>\<close>

definition price_of :: "string \<Rightarrow> int" where
  "price_of item_name = (case map_of menu_prices item_name of Some p \<Rightarrow> p | None \<Rightarrow> 1000)"

text \<open>
  \<^verbatim>\<open>for item in order_items\<close>: a list gives its elements, a string its characters, a
  dictionary its keys; anything else is not iterable.
\<close>

fun py_iter :: "json \<Rightarrow> error + json list" where
  "py_iter (JArr xs) = Inr xs"
| "py_iter (JStr s) = Inr (map (\<lambda>c. JStr [c]) s)"
| "py_iter (JObj kvs) = Inr (map (\<lambda>kv. JStr (fst kv)) kvs)"
| "py_iter v = Inl TypeError"

text \<open>
  \<^verbatim>\<open>item.get("item", "").lower()\<close>: only a dictionary has \<^verbatim>\<open>get\<close>, only a string
  has \<^verbatim>\<open>lower\<close>.
\<close>

fun item_name :: "json \<Rightarrow> error + string" where
  "item_name (JObj d) =
     (case dict_get d ''item'' (JStr []) of
        JStr s \<Rightarrow> Inr (py_lower s)
      | v \<Rightarrow> Inl AttributeError)"
| "item_name v = Inl AttributeError"

text \<open>\<^verbatim>\<open>item.get("quantity", 1)\<close>, reached only after \<open>item_name\<close> succeeded.\<close>

fun item_quantity :: "json \<Rightarrow> json" where
  "item_quantity (JObj d) = dict_get d ''quantity'' (JInt 1)"
| "item_quantity v = JInt 1"

text \<open>
  \<^verbatim>\<open>total += price * quantity\<close> with an integer total and price: an integer or a
  boolean quantity gives an integer; a string or a list is repeated by \<^verbatim>\<open>*\<close> and then
  cannot be added to the integer; \<^verbatim>\<open>None\<close> and a dictionary cannot be multiplied.
\<close>

fun add_line :: "int \<Rightarrow> int \<Rightarrow> json \<Rightarrow> error + int" where
  "add_line tot price (JInt q) = Inr (tot + price * q)"
| "add_line tot price (JBool b) = Inr (tot + price * (if b then 1 else 0))"
| "add_line tot price v = Inl TypeError"

fun total_loop :: "int \<Rightarrow> json list \<Rightarrow> error + int" where
  "total_loop tot [] = Inr tot"
| "total_loop tot (item # items) =
     (case item_name item of
        Inl e \<Rightarrow> Inl e
      | Inr name \<Rightarrow>
          (case add_line tot (price_of name) (item_quantity item) of
             Inl e \<Rightarrow> Inl e
           | Inr tot' \<Rightarrow> total_loop tot' items))"

definition calculate_order_total :: "json \<Rightarrow> error + int" where
  "calculate_order_total order_items =
     (case py_iter order_items of
        Inl e \<Rightarrow> Inl e
      | Inr items \<Rightarrow> total_loop 0 items)"

section \<open>parse_datetime\<close>

text \<open>
  The \<^verbatim>\<open>datetime\<close> module is a parameter: \<open>fromisoformat s\<close> and \<open>strptime s format\<close>
  give the parsed value of a string, or \<open>None\<close> where the library raises
  \<^verbatim>\<open>ValueError\<close>; \<open>utcnow\<close> is the clock. Given anything but a string, both parsers
  raise \<^verbatim>\<open>TypeError\<close>.
\<close>

record 'dt datetime_module =
  fromisoformat :: "string \<Rightarrow> 'dt option"
  strptime :: "string \<Rightarrow> string \<Rightarrow> 'dt option"
  utcnow :: 'dt

fun py_fromisoformat :: "'dt datetime_module \<Rightarrow> json \<Rightarrow> error + 'dt" where
  "py_fromisoformat dt (JStr s) =
     (case fromisoformat dt s of Some d \<Rightarrow> Inr d | None \<Rightarrow> Inl ValueError)"
| "py_fromisoformat dt v = Inl TypeError"

fun py_strptime :: "'dt datetime_module \<Rightarrow> json \<Rightarrow> string \<Rightarrow> error + 'dt" where
  "py_strptime dt (JStr s) format =
     (case strptime dt s format of Some d \<Rightarrow> Inr d | None \<Rightarrow> Inl ValueError)"
| "py_strptime dt v format = Inl TypeError"

definition parse_datetime :: "'dt datetime_module \<Rightarrow> json \<Rightarrow> error + 'dt option" where
  "parse_datetime dt datetime_str =
     (if \<not> py_truthy datetime_str then Inr None
      else
        (case py_fromisoformat dt datetime_str of
           Inr d \<Rightarrow> Inr (Some d)
         | Inl e \<Rightarrow>
             if e = ValueError \<or> e = TypeError
             then
               (case py_strptime dt datetime_str ''%Y-%m-%d %H:%M:%S'' of
                  Inr d \<Rightarrow> Inr (Some d)
                | Inl e' \<Rightarrow> if e' = ValueError \<or> e' = TypeError then Inr None else Inl e')
             else Inl e))"

section \<open>The orders table and save_order\<close>

text \<open>
  A row of the table \<^verbatim>\<open>orders\<close> holds the values bound to its columns. The columns
  \<^verbatim>\<open>customer_name\<close>, \<^verbatim>\<open>customer_phone\<close> and \<^verbatim>\<open>order_items\<close> are declared
  \<^verbatim>\<open>nullable=False\<close>; \<^verbatim>\<open>status\<close> defaults to \<^verbatim>\<open>'confirmed'\<close>, the two timestamps
  to the clock.
\<close>

record 'dt Order =
  id' :: nat
  customer_name :: json
  customer_phone :: string
  order_items :: string
  order_total :: int
  reservation_time :: "'dt option"
  party_size :: json
  status :: string
  created_at :: 'dt
  updated_at :: 'dt

text \<open>
  Binding a value to a parameter of the insert: SQLite takes \<^verbatim>\<open>None\<close>, booleans,
  strings and the integers of 64 bits; a larger integer raises \<^verbatim>\<open>OverflowError\<close>, a
  list or a dictionary the driver's error for an unsupported type.
\<close>

fun bind_error :: "json \<Rightarrow> error option" where
  "bind_error (JInt n) =
     (if - (2 ^ 63) \<le> n \<and> n < 2 ^ 63 then None else Some OverflowError)"
| "bind_error (JArr xs) = Some (InterfaceError ''Error binding parameter'')"
| "bind_error (JObj kvs) = Some (InterfaceError ''Error binding parameter'')"
| "bind_error v = None"

text \<open>The integer primary key of a new row: one more than the largest in the table.\<close>

definition next_id :: "'dt Order list \<Rightarrow> nat" where
  "next_id rows = Suc (foldr max (map id' rows) 0)"

text \<open>
  \<^verbatim>\<open>session.add(new_order); session.commit()\<close> on a usable session. The values are
  bound in the order of the columns; the insert fails when one cannot be bound or when the
  \<^verbatim>\<open>NOT NULL\<close> column \<^verbatim>\<open>customer_name\<close> receives \<^verbatim>\<open>None\<close>, and then the table is as
  before. (The phone number and the item text are strings, the timestamps come from the
  \<^verbatim>\<open>datetime\<close> module: they can be bound and are not \<^verbatim>\<open>None\<close>.)
\<close>

definition add_and_commit :: "'dt Order list \<Rightarrow> 'dt Order \<Rightarrow> error + 'dt Order list" where
  "add_and_commit rows new_order =
     (case bind_error (customer_name new_order) of
        Some e \<Rightarrow> Inl e
      | None \<Rightarrow>
          (case bind_error (JInt (order_total new_order)) of
             Some e \<Rightarrow> Inl e
           | None \<Rightarrow>
               (case bind_error (party_size new_order) of
                  Some e \<Rightarrow> Inl e
                | None \<Rightarrow>
                    if customer_name new_order = JNull
                    then Inl (IntegrityError ''NOT NULL constraint failed: orders.customer_name'')
                    else Inr (rows @ [new_order\<lparr>id' := next_id rows\<rparr>]))))"

text \<open>
  The \<^verbatim>\<open>Order(...)\<close> that \<open>save_order\<close> builds, given the total and the reservation
  time it has computed; the table numbers the row when it is inserted.
\<close>

definition new_order ::
  "'dt datetime_module \<Rightarrow> (string \<times> json) list \<Rightarrow> string \<Rightarrow> int \<Rightarrow> 'dt option \<Rightarrow> 'dt Order" where
  "new_order dt order_details customer_phone' tot time =
     \<lparr>id' = 0,
      customer_name = dict_get order_details ''customer_name'' (JStr ''Unknown''),
      customer_phone = customer_phone',
      order_items = json_dumps (dict_get order_details ''order_items'' (JArr [])),
      order_total = tot,
      reservation_time = time,
      party_size = dict_get order_details ''party_size'' JNull,
      status = ''confirmed'',
      created_at = utcnow dt,
      updated_at = utcnow dt\<rparr>"

text \<open>
  \<open>save_order\<close> returns the new row's id (or the exception) together with the table
  after the call.
\<close>

definition save_order ::
  "'dt datetime_module \<Rightarrow> 'dt Order list \<Rightarrow> (string \<times> json) list \<Rightarrow> string
     \<Rightarrow> (error + nat) \<times> 'dt Order list" where
  "save_order dt rows order_details customer_phone' =
     (case calculate_order_total (dict_get order_details ''order_items'' (JArr [])) of
        Inl e \<Rightarrow> (Inl e, rows)
      | Inr tot \<Rightarrow>
          (case parse_datetime dt (dict_get order_details ''reservation_time'' JNull) of
             Inl e \<Rightarrow> (Inl e, rows)
           | Inr time \<Rightarrow>
               (case add_and_commit rows
                       (new_order dt order_details customer_phone' tot time) of
                  Inl e \<Rightarrow> (Inl e, rows)
                | Inr rows' \<Rightarrow> (Inr (next_id rows), rows'))))"

section \<open>generate_twiml_response among the objects of the notebook\<close>

text \<open>
  What a cell of the notebook can reach and change: the \<^verbatim>\<open>VoiceResponse\<close> objects
  created so far, each at the address it was given when created; the table behind the
  database session; and the requests sent to the language-model service. Here the
  function is followed statement by statement: \<^verbatim>\<open>VoiceResponse()\<close> creates an object at
  a new address, \<^verbatim>\<open>say\<close>, \<^verbatim>\<open>append\<close> and \<^verbatim>\<open>redirect\<close> change the object at the
  address they are called on, and the function returns the address. (An address in use is
  always one that was given out, so the read in \<open>update_response\<close> is in range.)
\<close>

record 'dt notebook =
  responses :: "VoiceResponse list"
  orders :: "'dt Order list"
  requests :: "chat_request list"

definition new_response :: "'dt notebook \<Rightarrow> nat \<times> 'dt notebook" where
  "new_response w = (length (responses w), w\<lparr>responses := responses w @ [[]]\<rparr>)"

definition update_response ::
  "nat \<Rightarrow> (VoiceResponse \<Rightarrow> VoiceResponse) \<Rightarrow> 'dt notebook \<Rightarrow> 'dt notebook" where
  "update_response a f w = w\<lparr>responses := (responses w)[a := f (responses w ! a)]\<rparr>"

definition generate_twiml_response_in ::
  "string \<Rightarrow> bool \<Rightarrow> 'dt notebook \<Rightarrow> nat \<times> 'dt notebook" where
  "generate_twiml_response_in ai_message gather_speech w =
     (let (response, w1) = new_response w;
          w2 = update_response response (say ai_message ''Polly.Joanna'') w1
      in if gather_speech
         then (response,
               update_response response (redirect ''/voice/handle-no-input'')
                 (update_response response
                    (append_verb
                       (Gather \<lparr>input = ''speech'', action = ''/voice/process-speech'',
                                timeout = 3, speech_timeout = ''auto'', language = ''en-US''\<rparr>))
                    w2))
         else (response, w2))"

section \<open>Notions used to state the properties\<close>

text \<open>
  The unit price as the specification words it: the price of the table entry whose name
  equals the item's name up to case, and the default price 1000 when there is none.
\<close>

definition spec_unit_price :: "string \<Rightarrow> int" where
  "spec_unit_price name =
     (case find (\<lambda>entry. py_lower (fst entry) = py_lower name) menu_prices of
        Some entry \<Rightarrow> snd entry
      | None \<Rightarrow> 1000)"

text \<open>
  The line item \<^verbatim>\<open>{name, quantity}\<close> of the specification that a dictionary states: its
  \<^verbatim>\<open>"item"\<close> is a string and its \<^verbatim>\<open>"quantity"\<close> an integer.
\<close>

fun as_line :: "json \<Rightarrow> (string \<times> int) option" where
  "as_line (JObj d) =
     (case (map_of d ''item'', map_of d ''quantity'') of
        (Some (JStr name), Some (JInt quantity)) \<Rightarrow> Some (name, quantity)
      | other \<Rightarrow> None)"
| "as_line v = None"


definition fresh_notebook :: "nat notebook" where
  "fresh_notebook = \<lparr>responses = [], orders = [], requests = []\<rparr>"

definition sample_datetime :: "nat datetime_module" where
  "sample_datetime =
     \<lparr>fromisoformat = (\<lambda>s. if s = ''2025-06-01T19:30:00'' then Some 1748806200 else None),
      strptime = (\<lambda>s format.
         if s = ''2025-06-01 19:30:00'' \<and> format = ''%Y-%m-%d %H:%M:%S''
         then Some 1748806200 else None),
      utcnow = 1748800000\<rparr>"

text \<open>
  For concrete runs: extracted details that name the customer, list two menu items and
  carry a total of their own.
\<close>

definition sample_details :: "(string \<times> json) list" where
  "sample_details =
     [(''customer_name'', JStr ''John''),
      (''order_items'',
         JArr [JObj [(''item'', JStr ''Margherita Pizza''), (''quantity'', JInt 1)],
               JObj [(''item'', JStr ''tiramisu''), (''quantity'', JInt 1)]]),
      (''order_total'', JInt 5)]"

section \<open>Properties of classify_intent\<close>

lemma lower_char_idem: "lower_char (lower_char c) = lower_char c"
  by (auto simp: lower_char_def Let_def)

lemma py_lower_idem: "py_lower (py_lower s) = py_lower s"
  by (simp add: py_lower_def lower_char_idem)

lemma unclear_in_intents: "''unclear'' \<in> set intents"
  by (simp add: intents_def)

text \<open>
  Claim C1, as the code has it. When the service answers with a text, \<open>classify_intent\<close>
  returns that text with the surrounding whitespace stripped and in lower case (lowering
  it again changes nothing). The result is one of the seven labels only when the
  normalized text is one: a text outside the closed set is returned as it is, and is not
  mapped to \<^verbatim>\<open>unclear\<close>.
\<close>

theorem classify_intent_normalizes:
  assumes "create (classify_request transcript) = Inr (Some text # rest)"
  shows "classify_intent create transcript = Inr (py_lower (py_strip text)) \<and>
         py_lower (py_lower (py_strip text)) = py_lower (py_strip text) \<and>
         (py_lower (py_strip text) \<notin> set intents \<longrightarrow>
            classify_intent create transcript \<noteq> Inr ''unclear'')"
proof -
  have run: "classify_intent create transcript = Inr (py_lower (py_strip text))"
    using assms by (simp add: classify_intent_def first_content_def)
  moreover have "py_lower (py_strip text) \<notin> set intents \<Longrightarrow>
      py_lower (py_strip text) \<noteq> ''unclear''"
    using unclear_in_intents by metis
  ultimately show ?thesis
    by (simp add: py_lower_idem)
qed

theorem classify_intent_normalizes_witness:
  "classify_intent (answering ''  New_Order \<newline>'') ''I would like a pizza'' = Inr ''new_order'' \<and>
   ''new_order'' \<in> set intents"
proof -
  have "answering ''  New_Order \<newline>'' (classify_request ''I would like a pizza'')
          = Inr (Some ''  New_Order \<newline>'' # [])"
    by (simp add: answering_def)
  from classify_intent_normalizes
    [of "answering ''  New_Order \<newline>''" "''I would like a pizza''" "''  New_Order \<newline>''" "[]"] this
  have "classify_intent (answering ''  New_Order \<newline>'') ''I would like a pizza''
          = Inr (py_lower (py_strip ''  New_Order \<newline>''))"
    by blast
  moreover have "py_lower (py_strip ''  New_Order \<newline>'') = ''new_order''"
    by code_simp
  ultimately show ?thesis
    by (simp add: intents_def)
qed

text \<open>
  The service answers \<^verbatim>\<open>Pizza!\<close>: the caller receives \<^verbatim>\<open>pizza!\<close>, which is none of
  the seven labels.
\<close>

theorem classify_intent_open_counterexample:
  "classify_intent (answering ''Pizza!'') ''What do you sell?'' = Inr ''pizza!'' \<and>
   ''pizza!'' \<notin> set intents"
  by code_simp

text \<open>
  Claim C5, as the code has it. When the call to the service raises, \<open>classify_intent\<close>
  raises the same exception to its caller: there is no retry and no fallback label. It
  returns a label only when the service answered with a text.
\<close>

theorem classify_intent_propagates:
  "(create (classify_request transcript) = Inl e \<longrightarrow>
      classify_intent create transcript = Inl e) \<and>
   (classify_intent create transcript = Inr label \<longrightarrow>
      (\<exists>text rest. create (classify_request transcript) = Inr (Some text # rest)))"
  by (auto simp: classify_intent_def first_content_def
      split: sum.splits list.splits option.splits)

theorem classify_intent_propagates_witness:
  "classify_intent (failing (OpenAIError ''Rate limit reached'')) ''Goodbye''
     = Inl (OpenAIError ''Rate limit reached'') \<and>
   (\<exists>text rest. answering ''end_call'' (classify_request ''Goodbye'') = Inr (Some text # rest))"
proof -
  have a: "failing (OpenAIError ''Rate limit reached'') (classify_request ''Goodbye'')
             = Inl (OpenAIError ''Rate limit reached'')"
    by (simp add: failing_def)
  have b: "classify_intent (answering ''end_call'') ''Goodbye'' = Inr ''end_call''"
    by code_simp
  from classify_intent_propagates
    [of "failing (OpenAIError ''Rate limit reached'')" "''Goodbye''"
        "OpenAIError ''Rate limit reached''" "''x''"] a
  have "classify_intent (failing (OpenAIError ''Rate limit reached'')) ''Goodbye''
          = Inl (OpenAIError ''Rate limit reached'')"
    by blast
  moreover from classify_intent_propagates
    [of "answering ''end_call''" "''Goodbye''" "IndexError" "''end_call''"] b
  have "\<exists>text rest. answering ''end_call'' (classify_request ''Goodbye'') = Inr (Some text # rest)"
    by blast
  ultimately show ?thesis by blast
qed

text \<open>
  Every attempt of the service times out: the caller of \<open>classify_intent\<close> receives the
  exception, not the label \<^verbatim>\<open>unclear\<close>.
\<close>

theorem classify_intent_failure_counterexample:
  "classify_intent (failing (OpenAIError ''Request timed out.'')) ''I need to cancel my order''
     = Inl (OpenAIError ''Request timed out.'') \<and>
   classify_intent (failing (OpenAIError ''Request timed out.'')) ''I need to cancel my order''
     \<noteq> Inr ''unclear''"
  by (simp add: classify_intent_def failing_def)

section \<open>Properties of generate_twiml_response\<close>

text \<open>
  Claim C3. For every message and flag, the document has exactly one speak step and at
  most one listen step, and it has a listen step exactly when the flag is true. A listen
  step gathers speech with the timeout 3 and the speech timeout \<^verbatim>\<open>auto\<close>; with the flag
  true the document is the speech, the listen step and then the redirect to
  \<^verbatim>\<open>/voice/handle-no-input\<close>; with the flag false it is the speech alone.
\<close>

theorem generate_twiml_response_steps:
  "length (filter is_speak (generate_twiml_response ai_message gather_speech)) = 1 \<and>
   length (filter is_listen (generate_twiml_response ai_message gather_speech)) \<le> 1 \<and>
   ((\<exists>v \<in> set (generate_twiml_response ai_message gather_speech). is_listen v) = gather_speech) \<and>
   (\<forall>g. Gather g \<in> set (generate_twiml_response ai_message gather_speech) \<longrightarrow>
        input g = ''speech'' \<and> timeout g = 3 \<and> speech_timeout g = ''auto'') \<and>
   (gather_speech \<longrightarrow>
      (\<exists>g. generate_twiml_response ai_message gather_speech =
             [Say ai_message ''Polly.Joanna'', Gather g, Redirect ''/voice/handle-no-input''])) \<and>
   (\<not> gather_speech \<longrightarrow>
      generate_twiml_response ai_message gather_speech = [Say ai_message ''Polly.Joanna''])"
  by (cases gather_speech)
     (auto simp: generate_twiml_response_def say_def append_verb_def redirect_def Let_def)

theorem generate_twiml_response_steps_witness:
  "generate_twiml_response ''How can I help?'' True =
     [Say ''How can I help?'' ''Polly.Joanna'',
      Gather \<lparr>input = ''speech'', action = ''/voice/process-speech'', timeout = 3,
              speech_timeout = ''auto'', language = ''en-US''\<rparr>,
      Redirect ''/voice/handle-no-input''] \<and>
   generate_twiml_response ''Goodbye!'' False = [Say ''Goodbye!'' ''Polly.Joanna''] \<and>
   length (filter is_speak (generate_twiml_response ''How can I help?'' True)) = 1"
proof -
  have "length (filter is_speak (generate_twiml_response ''How can I help?'' True)) = 1"
    using generate_twiml_response_steps [of "''How can I help?''" True] by blast
  moreover have "generate_twiml_response ''Goodbye!'' False = [Say ''Goodbye!'' ''Polly.Joanna'']"
    using generate_twiml_response_steps [of "''Goodbye!''" False] by blast
  moreover have "generate_twiml_response ''How can I help?'' True =
     [Say ''How can I help?'' ''Polly.Joanna'',
      Gather \<lparr>input = ''speech'', action = ''/voice/process-speech'', timeout = 3,
              speech_timeout = ''auto'', language = ''en-US''\<rparr>,
      Redirect ''/voice/handle-no-input'']"
    by (simp add: generate_twiml_response_def say_def append_verb_def redirect_def Let_def)
  ultimately show ?thesis by blast
qed

text \<open>
  Claim C9. Called in any state of the notebook, the builder creates one new response
  object, and the content of that object is the document that the message and the flag
  determine. It changes no object that existed before, nor the orders table, nor the
  requests sent to the service. Hence two calls with the same message and flag give the
  same document, in any order and whatever ran in between.
\<close>

theorem generate_twiml_response_pure:
  "fst (generate_twiml_response_in ai_message gather_speech w) = length (responses w) \<and>
   responses (snd (generate_twiml_response_in ai_message gather_speech w))
     = responses w @ [generate_twiml_response ai_message gather_speech] \<and>
   orders (snd (generate_twiml_response_in ai_message gather_speech w)) = orders w \<and>
   requests (snd (generate_twiml_response_in ai_message gather_speech w)) = requests w \<and>
   responses (snd (generate_twiml_response_in ai_message gather_speech w))
     ! fst (generate_twiml_response_in ai_message gather_speech w)
   = responses (snd (generate_twiml_response_in ai_message gather_speech w'))
     ! fst (generate_twiml_response_in ai_message gather_speech w')"
  by (cases gather_speech)
     (simp_all add: generate_twiml_response_in_def generate_twiml_response_def new_response_def
        update_response_def Let_def)

theorem generate_twiml_response_pure_witness:
  "responses (snd (generate_twiml_response_in ''Hello'' True fresh_notebook))
     = [generate_twiml_response ''Hello'' True] \<and>
   responses (snd (generate_twiml_response_in ''Hello'' True
                     (snd (generate_twiml_response_in ''Goodbye!'' False fresh_notebook))))
     = [generate_twiml_response ''Goodbye!'' False, generate_twiml_response ''Hello'' True]"
proof -
  have "responses fresh_notebook = []"
    by (simp add: fresh_notebook_def)
  moreover note
    generate_twiml_response_pure [of "''Hello''" True fresh_notebook fresh_notebook]
    generate_twiml_response_pure [of "''Goodbye!''" False fresh_notebook fresh_notebook]
    generate_twiml_response_pure
      [of "''Hello''" True "snd (generate_twiml_response_in ''Goodbye!'' False fresh_notebook)"
          fresh_notebook]
  ultimately show ?thesis by simp
qed

section \<open>Properties of generate_response\<close>

text \<open>
  Claim C6, as the code has it. When the call to the service raises, \<open>generate_response\<close>
  raises the same exception to its caller: there is no retry and no fallback utterance.
  When the service answers with a text, that text is returned unchanged, and the document
  built from it with the listen flag true has a listen step.
\<close>

theorem generate_response_propagates:
  assumes "response_messages transcript conversation_history order_data = Inr ms"
  shows "(create (response_request ms) = Inl e \<longrightarrow>
            generate_response create transcript conversation_history order_data = Inl e) \<and>
         (create (response_request ms) = Inr (Some text # rest) \<longrightarrow>
            generate_response create transcript conversation_history order_data = Inr (Some text) \<and>
            (\<exists>v \<in> set (generate_twiml_response text True). is_listen v))"
  using assms
  by (auto simp: generate_response_def first_content_def generate_twiml_response_def
      say_def append_verb_def redirect_def Let_def)

lemma sample_messages:
  "response_messages ''Do you have any vegetarian options?''
     [\<lparr>customer = Some ''Hi, I would like to order some food for delivery.'', assistant = None\<rparr>]
     None =
   Inr [\<lparr>role = ''system'', content = response_system_prompt\<rparr>,
        \<lparr>role = ''user'', content = ''Hi, I would like to order some food for delivery.''\<rparr>,
        \<lparr>role = ''user'', content = ''Do you have any vegetarian options?''\<rparr>]"
  by (simp add: response_messages_def)

theorem generate_response_propagates_witness:
  "generate_response (failing (OpenAIError ''Connection error.''))
     ''Do you have any vegetarian options?''
     [\<lparr>customer = Some ''Hi, I would like to order some food for delivery.'', assistant = None\<rparr>]
     None = Inl (OpenAIError ''Connection error.'') \<and>
   generate_response (answering ''Yes, our Margherita Pizza is vegetarian.'')
     ''Do you have any vegetarian options?''
     [\<lparr>customer = Some ''Hi, I would like to order some food for delivery.'', assistant = None\<rparr>]
     None = Inr (Some ''Yes, our Margherita Pizza is vegetarian.'')"
proof -
  note th = generate_response_propagates [OF sample_messages]
  have "generate_response (failing (OpenAIError ''Connection error.''))
     ''Do you have any vegetarian options?''
     [\<lparr>customer = Some ''Hi, I would like to order some food for delivery.'', assistant = None\<rparr>]
     None = Inl (OpenAIError ''Connection error.'')"
    using th [of "failing (OpenAIError ''Connection error.'')" "OpenAIError ''Connection error.''"]
    by (simp add: failing_def)
  moreover have "generate_response (answering ''Yes, our Margherita Pizza is vegetarian.'')
     ''Do you have any vegetarian options?''
     [\<lparr>customer = Some ''Hi, I would like to order some food for delivery.'', assistant = None\<rparr>]
     None = Inr (Some ''Yes, our Margherita Pizza is vegetarian.'')"
    using th [of "answering ''Yes, our Margherita Pizza is vegetarian.''" IndexError
                 "''Yes, our Margherita Pizza is vegetarian.''" "[]"]
    by (simp add: answering_def)
  ultimately show ?thesis by blast
qed

text \<open>
  The service times out: the caller of \<open>generate_response\<close> receives the exception, and no
  utterance from which a document could be built.
\<close>

theorem generate_response_failure_counterexample:
  "generate_response (failing (OpenAIError ''Request timed out.''))
     ''I will take a Margherita Pizza and Tiramisu.''
     [\<lparr>customer = Some ''Do you have any vegetarian options?'',
       assistant = Some ''Yes, we do.''\<rparr>]
     None = Inl (OpenAIError ''Request timed out.'')"
  by (simp add: generate_response_def response_messages_def failing_def)

section \<open>Properties of parse_order_details\<close>





section \<open>Properties of calculate_order_total\<close>

lemma menu_keys_lower:
  "py_lower ''margherita pizza'' = ''margherita pizza''"
  "py_lower ''seafood linguine'' = ''seafood linguine''"
  "py_lower ''tiramisu'' = ''tiramisu''"
  by code_simp+

lemma price_of_lower: "price_of (py_lower name) = spec_unit_price name"
  by (auto simp: price_of_def spec_unit_price_def menu_prices_def menu_keys_lower)

lemma as_line_item:
  "as_line item = Some (name, quantity) \<Longrightarrow>
     item_name item = Inr (py_lower name) \<and> item_quantity item = JInt quantity"
  by (cases item)
     (auto simp: dict_get_def split: option.splits json.splits)

lemma total_loop_lines:
  "map as_line items = map Some lines \<Longrightarrow>
     total_loop acc items =
       Inr (acc + sum_list (map (\<lambda>line. spec_unit_price (fst line) * snd line) lines))"
proof (induction items arbitrary: acc lines)
  case Nil
  then show ?case by simp
next
  case (Cons item items)
  then obtain line lines' where lines: "lines = line # lines'"
    and line: "as_line item = Some line" and rest: "map as_line items = map Some lines'"
    by (cases lines) auto
  obtain name quantity where nq: "line = (name, quantity)" by (cases line)
  from as_line_item [of item name quantity] line nq
  have "item_name item = Inr (py_lower name)" "item_quantity item = JInt quantity"
    by simp_all
  then show ?case
    using Cons.IH [OF rest] lines nq by (simp add: price_of_lower algebra_simps)
qed

text \<open>
  Claim C2. For every list of items that state a name and an integer quantity,
  \<open>calculate_order_total\<close> returns the sum over the items of unit price times quantity,
  where the unit price is found in the menu table by a match of the names up to case and
  is 1000 for a name that matches no entry. (The result is a function of the item list
  alone.)
\<close>

theorem calculate_order_total_sum:
  assumes "map as_line items = map Some lines"
  shows "calculate_order_total (JArr items) =
           Inr (sum_list (map (\<lambda>line. spec_unit_price (fst line) * snd line) lines)) \<and>
         ((\<forall>entry \<in> set menu_prices. py_lower (fst entry) \<noteq> py_lower name) \<longrightarrow>
            spec_unit_price name = 1000)"
proof -
  have "calculate_order_total (JArr items) =
          Inr (sum_list (map (\<lambda>line. spec_unit_price (fst line) * snd line) lines))"
    using total_loop_lines [OF assms, of 0] by (simp add: calculate_order_total_def)
  moreover have "(\<forall>entry \<in> set menu_prices. py_lower (fst entry) \<noteq> py_lower name) \<longrightarrow>
      spec_unit_price name = 1000"
    by (auto simp: spec_unit_price_def find_Some_iff split: option.splits)
  ultimately show ?thesis by blast
qed

theorem calculate_order_total_sum_witness:
  "calculate_order_total
     (JArr [JObj [(''item'', JStr ''Margherita Pizza''), (''quantity'', JInt 1)],
            JObj [(''item'', JStr ''tiramisu''), (''quantity'', JInt 1)]]) = Inr 2400 \<and>
   calculate_order_total
     (JArr [JObj [(''item'', JStr ''mystery item''), (''quantity'', JInt 2)]]) = Inr 2000"
proof -
  have a: "map as_line [JObj [(''item'', JStr ''Margherita Pizza''), (''quantity'', JInt 1)],
                        JObj [(''item'', JStr ''tiramisu''), (''quantity'', JInt 1)]]
           = map Some [(''Margherita Pizza'', 1), (''tiramisu'', 1)]"
    by simp
  have b: "map as_line [JObj [(''item'', JStr ''mystery item''), (''quantity'', JInt 2)]]
           = map Some [(''mystery item'', 2)]"
    by simp
  have p: "spec_unit_price ''Margherita Pizza'' = 1600" "spec_unit_price ''tiramisu'' = 800"
    "spec_unit_price ''mystery item'' = 1000"
    by code_simp+
  from calculate_order_total_sum [OF a] calculate_order_total_sum [OF b] p
  show ?thesis by simp
qed

section \<open>Properties of parse_datetime\<close>

lemma parse_datetime_string:
  "parse_datetime dt (JStr s) =
     Inr (if s = [] then None
          else (case fromisoformat dt s of
                  Some d \<Rightarrow> Some d
                | None \<Rightarrow> strptime dt s ''%Y-%m-%d %H:%M:%S''))"
  by (simp add: parse_datetime_def split: option.splits)

lemma parse_datetime_other:
  "(\<forall>s. datetime_str \<noteq> JStr s) \<Longrightarrow> parse_datetime dt datetime_str = Inr None"
  by (cases datetime_str) (simp_all add: parse_datetime_def)

lemma parse_datetime_returns: "\<exists>time. parse_datetime dt datetime_str = Inr time"
  using parse_datetime_string parse_datetime_other by (cases datetime_str) blast+

text \<open>
  Claim C7. For every input, \<open>parse_datetime\<close> returns and never raises. Its result is
  empty for an input that is \<^verbatim>\<open>None\<close>, empty or otherwise falsy; and it is a timestamp
  exactly when the input is a non-empty string that \<^verbatim>\<open>fromisoformat\<close> accepts or,
  failing that, \<^verbatim>\<open>strptime\<close> accepts in the format \<^verbatim>\<open>%Y-%m-%d %H:%M:%S\<close>: an input
  in neither format gives the empty result.
\<close>

theorem parse_datetime_never_raises:
  "\<exists>r. parse_datetime dt datetime_str = Inr r \<and>
       (\<not> py_truthy datetime_str \<longrightarrow> r = None) \<and>
       (\<forall>d. (r = Some d) =
          (\<exists>s. datetime_str = JStr s \<and> s \<noteq> [] \<and>
               (fromisoformat dt s = Some d \<or>
                (fromisoformat dt s = None \<and>
                 strptime dt s ''%Y-%m-%d %H:%M:%S'' = Some d))))"
proof (cases "\<exists>s. datetime_str = JStr s")
  case True
  then obtain s where s: "datetime_str = JStr s" by blast
  show ?thesis
    unfolding s parse_datetime_string
    by (cases "fromisoformat dt s") auto
next
  case False
  then have "parse_datetime dt datetime_str = Inr None"
    using parse_datetime_other by blast
  with False show ?thesis by simp
qed

theorem parse_datetime_never_raises_witness:
  "parse_datetime sample_datetime (JStr ''2025-06-01 19:30:00'') = Inr (Some 1748806200) \<and>
   parse_datetime sample_datetime (JStr ''tomorrow at seven'') = Inr None \<and>
   parse_datetime sample_datetime JNull = Inr None"
proof -
  have iso: "fromisoformat sample_datetime ''2025-06-01 19:30:00'' = None"
    "fromisoformat sample_datetime ''tomorrow at seven'' = None"
    by (simp_all add: sample_datetime_def)
  have fmt: "strptime sample_datetime ''2025-06-01 19:30:00'' ''%Y-%m-%d %H:%M:%S''
               = Some 1748806200"
    "strptime sample_datetime ''tomorrow at seven'' ''%Y-%m-%d %H:%M:%S'' = None"
    by (simp_all add: sample_datetime_def)
  obtain r1 where r1: "parse_datetime sample_datetime (JStr ''2025-06-01 19:30:00'') = Inr r1"
    and v1: "\<forall>d. (r1 = Some d) =
          (\<exists>s. JStr ''2025-06-01 19:30:00'' = JStr s \<and> s \<noteq> [] \<and>
               (fromisoformat sample_datetime s = Some d \<or>
                (fromisoformat sample_datetime s = None \<and>
                 strptime sample_datetime s ''%Y-%m-%d %H:%M:%S'' = Some d)))"
    using parse_datetime_never_raises [of sample_datetime "JStr ''2025-06-01 19:30:00''"]
    by blast
  have "r1 = Some 1748806200"
    using v1 iso(1) fmt(1) by simp
  with r1 have a: "parse_datetime sample_datetime (JStr ''2025-06-01 19:30:00'')
                     = Inr (Some 1748806200)"
    by simp
  obtain r2 where r2: "parse_datetime sample_datetime (JStr ''tomorrow at seven'') = Inr r2"
    and v2: "\<forall>d. (r2 = Some d) =
          (\<exists>s. JStr ''tomorrow at seven'' = JStr s \<and> s \<noteq> [] \<and>
               (fromisoformat sample_datetime s = Some d \<or>
                (fromisoformat sample_datetime s = None \<and>
                 strptime sample_datetime s ''%Y-%m-%d %H:%M:%S'' = Some d)))"
    using parse_datetime_never_raises [of sample_datetime "JStr ''tomorrow at seven''"]
    by blast
  have "\<forall>d. r2 \<noteq> Some d"
    using v2 iso(2) fmt(2) by simp
  then have "r2 = None" by (cases r2) simp_all
  with r2 have b: "parse_datetime sample_datetime (JStr ''tomorrow at seven'') = Inr None"
    by simp
  have c: "parse_datetime sample_datetime JNull = Inr None"
    using parse_datetime_never_raises [of sample_datetime JNull] by auto
  from a b c show ?thesis by blast
qed

section \<open>Properties of save_order\<close>

lemma save_order_commit:
  assumes "calculate_order_total (dict_get order_details ''order_items'' (JArr [])) = Inr tot"
    and "parse_datetime dt (dict_get order_details ''reservation_time'' JNull) = Inr time"
  shows "save_order dt rows order_details phone =
           (case add_and_commit rows (new_order dt order_details phone tot time) of
              Inl e \<Rightarrow> (Inl e, rows)
            | Inr rows' \<Rightarrow> (Inr (next_id rows), rows'))"
  using assms by (simp add: save_order_def)

lemma save_order_total_raises:
  "calculate_order_total (dict_get order_details ''order_items'' (JArr [])) = Inl e \<Longrightarrow>
     save_order dt rows order_details phone = (Inl e, rows)"
  by (simp add: save_order_def)

lemma add_and_commit_row:
  "add_and_commit rows new = Inr rows' \<Longrightarrow> rows' = rows @ [new\<lparr>id' := next_id rows\<rparr>]"
  by (simp add: add_and_commit_def split: if_splits option.splits)

lemma save_order_saved:
  assumes "save_order dt rows order_details phone = (Inr i, rows')"
  shows "\<exists>tot time.
           calculate_order_total (dict_get order_details ''order_items'' (JArr [])) = Inr tot \<and>
           parse_datetime dt (dict_get order_details ''reservation_time'' JNull) = Inr time \<and>
           i = next_id rows \<and>
           rows' = rows @ [(new_order dt order_details phone tot time)\<lparr>id' := next_id rows\<rparr>]"
proof (cases "calculate_order_total (dict_get order_details ''order_items'' (JArr []))")
  case (Inl e)
  from save_order_total_raises [OF this, of dt rows phone] assms show ?thesis by simp
next
  case (Inr tot)
  obtain time where time:
    "parse_datetime dt (dict_get order_details ''reservation_time'' JNull) = Inr time"
    using parse_datetime_returns by blast
  show ?thesis
  proof (cases "add_and_commit rows (new_order dt order_details phone tot time)")
    case (Inl e)
    with save_order_commit [OF Inr time, of rows phone] assms show ?thesis by simp
  next
    case commit: (Inr rows'')
    with save_order_commit [OF Inr time, of rows phone] assms
    have "i = next_id rows" "rows' = rows''" by simp_all
    with add_and_commit_row [OF commit] Inr time show ?thesis by blast
  qed
qed

text \<open>
  Claim C8. Whenever \<open>save_order\<close> saves a row, the row's total is the value of
  \<open>calculate_order_total\<close> on the item list of the details (the empty list when the key is
  absent), computed during the call; a total that the details carry themselves is not
  read. When \<open>calculate_order_total\<close> raises, nothing is saved.
\<close>

theorem save_order_total_recomputed:
  "(save_order dt rows order_details phone = (Inr i, rows') \<longrightarrow>
      (\<exists>row. rows' = rows @ [row] \<and> id' row = i \<and>
             calculate_order_total (dict_get order_details ''order_items'' (JArr []))
               = Inr (order_total row))) \<and>
   (calculate_order_total (dict_get order_details ''order_items'' (JArr [])) = Inl e \<longrightarrow>
      save_order dt rows order_details phone = (Inl e, rows))"
proof (intro conjI impI)
  assume "save_order dt rows order_details phone = (Inr i, rows')"
  from save_order_saved [OF this] obtain tot time where
    tot: "calculate_order_total (dict_get order_details ''order_items'' (JArr [])) = Inr tot"
    and i: "i = next_id rows"
    and rows': "rows' = rows @ [(new_order dt order_details phone tot time)\<lparr>id' := next_id rows\<rparr>]"
    by blast
  have "order_total ((new_order dt order_details phone tot time)\<lparr>id' := next_id rows\<rparr>) = tot"
    by (simp add: new_order_def)
  moreover have "id' ((new_order dt order_details phone tot time)\<lparr>id' := next_id rows\<rparr>) = i"
    by (simp add: i)
  ultimately show "\<exists>row. rows' = rows @ [row] \<and> id' row = i \<and>
             calculate_order_total (dict_get order_details ''order_items'' (JArr []))
               = Inr (order_total row)"
    using rows' tot by metis
next
  assume "calculate_order_total (dict_get order_details ''order_items'' (JArr [])) = Inl e"
  then show "save_order dt rows order_details phone = (Inl e, rows)"
    by (rule save_order_total_raises)
qed

lemma sample_total:
  "calculate_order_total (dict_get sample_details ''order_items'' (JArr [])) = Inr 2400"
  by code_simp

lemma sample_time:
  "parse_datetime sample_datetime (dict_get sample_details ''reservation_time'' JNull) = Inr None"
  by (simp add: sample_details_def dict_get_def parse_datetime_def)

lemma sample_saved:
  "\<exists>rows'. save_order sample_datetime [] sample_details ''+15551234567'' = (Inr 1, rows')"
proof -
  have "customer_name (new_order sample_datetime sample_details ''+15551234567'' 2400 None)
          = JStr ''John''"
    "party_size (new_order sample_datetime sample_details ''+15551234567'' 2400 None) = JNull"
    "order_total (new_order sample_datetime sample_details ''+15551234567'' 2400 None) = 2400"
    by (simp_all add: new_order_def sample_details_def dict_get_def)
  then have "\<exists>rows'. add_and_commit []
      (new_order sample_datetime sample_details ''+15551234567'' 2400 None) = Inr rows'"
    by (simp add: add_and_commit_def)
  with save_order_commit [OF sample_total sample_time, of "[]" "''+15551234567''"]
  show ?thesis by (auto simp: next_id_def)
qed

theorem save_order_total_recomputed_witness:
  "\<exists>row. snd (save_order sample_datetime [] sample_details ''+15551234567'') = [row] \<and>
         id' row = 1 \<and> order_total row = 2400"
proof -
  from sample_saved obtain rows' where
    run: "save_order sample_datetime [] sample_details ''+15551234567'' = (Inr 1, rows')"
    by blast
  from save_order_total_recomputed
    [of sample_datetime "[]" sample_details "''+15551234567''" 1 rows' TypeError] run
  obtain row where "rows' = [] @ [row]" "id' row = 1"
    "calculate_order_total (dict_get sample_details ''order_items'' (JArr []))
       = Inr (order_total row)"
    by blast
  with sample_total run show ?thesis by simp
qed














text \<open>
  The default applies to an absent key only. In the dictionary that
  \<open>parse_order_details\<close> returns after \<^verbatim>\<open>JSONDecodeError\<close> the key is present and holds
  \<^verbatim>\<open>None\<close>: there the column \<^verbatim>\<open>customer_name\<close> receives \<^verbatim>\<open>None\<close> and the insert
  fails.
\<close>

lemma fallback_total: "calculate_order_total (dict_get fallback_details ''order_items'' (JArr [])) = Inr 0"
  by (simp add: fallback_details_def dict_get_def calculate_order_total_def)

lemma fallback_time: "parse_datetime dt (dict_get fallback_details ''reservation_time'' JNull) = Inr None"
  by (simp add: fallback_details_def dict_get_def parse_datetime_def)

lemma save_order_fallback_details_raises:
  "save_order dt rows fallback_details phone =
     (Inl (IntegrityError ''NOT NULL constraint failed: orders.customer_name''), rows)"
proof -
  have "customer_name (new_order dt fallback_details phone 0 None) = JNull"
    "party_size (new_order dt fallback_details phone 0 None) = JNull"
    "order_total (new_order dt fallback_details phone 0 None) = 0"
    by (simp_all add: new_order_def fallback_details_def dict_get_def)
  then have "add_and_commit rows (new_order dt fallback_details phone 0 None) =
      Inl (IntegrityError ''NOT NULL constraint failed: orders.customer_name'')"
    by (simp add: add_and_commit_def)
  with save_order_commit [OF fallback_total fallback_time [of dt], of rows phone]
  show ?thesis by simp
qed

end
